theory Spec2Isabelle
  imports Main "HOL-Library.Multiset" "HOL-Library.List_Lexorder" "HOL-Library.Char_ord"
    "HOL-Library.Option_ord" "HOL-Library.Product_Lexorder"
begin

section \<open>Issue Tagger\<close>

text \<open>
  Python strings are modelled as \<^typ>\<open>string\<close>, one \<^typ>\<open>char\<close> per code point
  (code points below 256). A missing value (\<open>None\<close>, \<open>NaN\<close>) is \<^term>\<open>None\<close>.
\<close>

type_synonym cell = "string option"

text \<open>The character class \<open>[^-.]\<close> of the marker pattern \<open>scan_([^-.]+)\<close>.\<close>

definition token_char :: "char \<Rightarrow> bool" where
  "token_char c \<longleftrightarrow> c \<noteq> CHR ''-'' \<and> c \<noteq> CHR ''.''"

text \<open>
  \<open>re.search(r'scan_([^-.]+)', filename)\<close>: the leftmost position where \<open>scan_\<close> is
  followed by at least one token character; the group is the longest run of them.
\<close>

fun re_search_scan :: "string \<Rightarrow> string option" where
  "re_search_scan [] = None"
| "re_search_scan (c # cs) =
     (if take 5 (c # cs) = ''scan_'' \<and> takeWhile token_char (drop 5 (c # cs)) \<noteq> []
      then Some (takeWhile token_char (drop 5 (c # cs)))
      else re_search_scan cs)"

definition replace_underscore :: "string \<Rightarrow> string" where
  "replace_underscore s = map (\<lambda>c. if c = CHR ''_'' then CHR '' '' else c) s"

definition is_space :: "char \<Rightarrow> bool" where
  "is_space c \<longleftrightarrow> c \<in> set [CHR 0x09, CHR 0x0A, CHR 0x0B, CHR 0x0C, CHR 0x0D,
      CHR 0x1C, CHR 0x1D, CHR 0x1E, CHR 0x1F, CHR 0x20, CHR 0x85, CHR 0xA0]"

definition strip :: "string \<Rightarrow> string" where
  "strip s = rev (dropWhile is_space (rev (dropWhile is_space s)))"

definition lower_char :: "char \<Rightarrow> char" where
  "lower_char c =
     (let n = (of_char c :: nat) in
      if (65 \<le> n \<and> n \<le> 90) \<or> (192 \<le> n \<and> n \<le> 222 \<and> n \<noteq> 215)
      then char_of (n + 32) else c)"

definition lower :: "string \<Rightarrow> string" where
  "lower s = map lower_char s"

text \<open>\<open>extract_issue_from_filename\<close> of \<open>shadowserver_files_processor.py\<close>.\<close>

definition extract_issue_from_filename :: "string \<Rightarrow> cell" where
  "extract_issue_from_filename filename =
     (case re_search_scan filename of
        Some g \<Rightarrow> Some (lower (strip (replace_underscore g)))
      | None \<Rightarrow> None)"

text \<open>\<open>extract_issue_from_filename\<close> of the copy kept in \<open>script_V3.0.py\<close>.\<close>

definition extract_issue_from_filename_copy :: "string \<Rightarrow> string" where
  "extract_issue_from_filename_copy filename =
     (case re_search_scan filename of
        Some g \<Rightarrow> lower (strip (replace_underscore g))
      | None \<Rightarrow> ''unknown issue'')"

section \<open>Tables\<close>

text \<open>
  A data-frame row of the destination layout. The twenty destination columns are the eleven
  named fields and, in \<open>passthrough\<close>, the nine workflow columns that no operation reads
  (Asset Type, Description, Client Awareness Training Needed, Advisory Sent, Date Advisory
  Sent, Issue Resolved, Date Issue Resolved, Contact Person, Contact Email). The type
  parameters are the types of the text cells, of \<open>Timestamp\<close> and of \<open>Recurring Issue\<close>
  at the different stages: field text in a CSV file, \<^typ>\<open>cell\<close> once loaded, parsed time
  and integer after conversion.
\<close>

datatype ('c, 't, 'n) row =
  Row (Timestamp: 't) (Severity: 'c) (IP: 'c) (Protocol: 'c) (Port: 'c) (State: 'c)
      (Hostname: 'c) (Region: 'c) (City: 'c) (Issue: 'c) (Recurring_Issue: 'n)
      (passthrough: "'c list")

type_synonym csv_row = "(string, string, string) row"
type_synonym str_row = "(cell, cell, cell) row"

text \<open>
  \<open>pd.read_csv(..., dtype=str)\<close> on one field: the default missing-value markers become
  \<open>NaN\<close>, every other text is kept. \<open>to_csv\<close> writes \<open>NaN\<close> and \<open>None\<close> as the empty
  field.
\<close>

definition na_values :: "string list" where
  "na_values = ['''', ''#N/A'', ''#N/A N/A'', ''#NA'', ''-1.#IND'', ''-1.#QNAN'', ''-NaN'',
     ''-nan'', ''1.#IND'', ''1.#QNAN'', ''<NA>'', ''N/A'', ''NA'', ''NULL'', ''NaN'', ''None'',
     ''n/a'', ''nan'', ''null'']"

definition read_csv_cell :: "string \<Rightarrow> cell" where
  "read_csv_cell s = (if s \<in> set na_values then None else Some s)"

definition to_csv_cell :: "cell \<Rightarrow> string" where
  "to_csv_cell c = (case c of None \<Rightarrow> '''' | Some s \<Rightarrow> s)"

definition read_csv :: "csv_row list \<Rightarrow> str_row list" where
  "read_csv f = map (map_row read_csv_cell read_csv_cell read_csv_cell) f"

text \<open>\<open>.apply(lambda x: x.str.strip() ...)\<close>: every text cell stripped, \<open>NaN\<close> kept.\<close>

definition strip_cell :: "cell \<Rightarrow> cell" where
  "strip_cell c = map_option strip c"

definition strip_all :: "str_row list \<Rightarrow> str_row list" where
  "strip_all df = map (map_row strip_cell strip_cell strip_cell) df"

text \<open>
  Element-wise \<open>==\<close> and \<open>!=\<close> of a column against a scalar: a missing value on either
  side is equal to nothing and different from everything.
\<close>

definition cell_eq :: "cell \<Rightarrow> cell \<Rightarrow> bool" where
  "cell_eq a b = (case (a, b) of (Some x, Some y) \<Rightarrow> x = y | _ \<Rightarrow> False)"

definition cell_ne :: "cell \<Rightarrow> cell \<Rightarrow> bool" where
  "cell_ne a b = (\<not> cell_eq a b)"

section \<open>Coercion of the Recurring Issue column\<close>

text \<open>
  What \<open>astype(int)\<close> distinguishes in a value produced by \<open>pd.to_numeric\<close>: not a number,
  a finite number (carried as the integer the cast yields), or an infinity.
\<close>

datatype numeric = NaN | Finite int | Infinite

datatype error = IntCastingNaNError

text \<open>An entry of the column: text as loaded, or an integer once the column was converted.\<close>

datatype counter = Text cell | Count int

text \<open>
  \<open>pd.to_numeric(col, errors='coerce')\<close>. The parsing of a text is the library's; it is the
  parameter \<open>tn\<close>. A missing value stays \<open>NaN\<close>, an integer stays itself.
\<close>

definition to_numeric :: "(string \<Rightarrow> numeric) \<Rightarrow> counter \<Rightarrow> numeric" where
  "to_numeric tn c = (case c of Count n \<Rightarrow> Finite n | Text None \<Rightarrow> NaN | Text (Some s) \<Rightarrow> tn s)"

definition fillna0 :: "numeric \<Rightarrow> numeric" where
  "fillna0 x = (case x of NaN \<Rightarrow> Finite 0 | _ \<Rightarrow> x)"

text \<open>\<open>astype(int)\<close> raises when the column holds a non-finite value.\<close>

definition is_finite :: "numeric \<Rightarrow> bool" where
  "is_finite x = (case x of Finite _ \<Rightarrow> True | _ \<Rightarrow> False)"

definition astype_int :: "numeric list \<Rightarrow> error + int list" where
  "astype_int xs =
     (if list_all is_finite xs
      then Inr (map (\<lambda>x. case x of Finite n \<Rightarrow> n | _ \<Rightarrow> 0) xs)
      else Inl IntCastingNaNError)"

definition coerce_column :: "(string \<Rightarrow> numeric) \<Rightarrow> counter list \<Rightarrow> error + int list" where
  "coerce_column tn col = astype_int (map (\<lambda>c. fillna0 (to_numeric tn c)) col)"

definition set_recurring :: "'m \<Rightarrow> ('c, 't, 'n) row \<Rightarrow> ('c, 't, 'm) row" where
  "set_recurring n r = map_row id id (\<lambda>_. n) r"

text \<open>\<open>df['Recurring Issue'] = pd.to_numeric(...).fillna(0).astype(int)\<close>\<close>

definition coerce_recurring ::
  "(string \<Rightarrow> numeric) \<Rightarrow> ('c, 't, counter) row list \<Rightarrow> error + ('c, 't, int) row list" where
  "coerce_recurring tn df =
     (case coerce_column tn (map Recurring_Issue df) of
        Inl e \<Rightarrow> Inl e
      | Inr ns \<Rightarrow> Inr (map2 set_recurring ns df))"

section \<open>Schema Normalizer\<close>

text \<open>
  A source file as \<open>pd.read_csv\<close> or \<open>pd.read_excel\<close> sees it: the header and, for each
  record, the text of the field under each column name.
\<close>

record src_table =
  columns :: "string list"
  body :: "(string \<Rightarrow> string) list"

text \<open>The keys of \<open>column_map\<close>, in the order of the dictionary.\<close>

definition column_map :: "string list" where
  "column_map = [''timestamp'', ''severity'', ''ip'', ''protocol'', ''port'', ''hostname'',
     ''region'', ''city'']"

text \<open>A cell of \<open>df_src\<close>: read with \<open>dtype=str\<close>, then stripped.\<close>

definition src_cell :: "(string \<Rightarrow> string) \<Rightarrow> string \<Rightarrow> cell" where
  "src_cell r col = strip_cell (read_csv_cell (r col))"

definition valid_cols :: "src_table \<Rightarrow> string list" where
  "valid_cols t = filter (\<lambda>col. col \<in> set (columns t)) column_map"

text \<open>\<open>temp.dropna(how='all')\<close>: a record goes only when every selected column is missing.\<close>

definition dropna_all :: "string list \<Rightarrow> (string \<Rightarrow> string) list \<Rightarrow> (string \<Rightarrow> string) list" where
  "dropna_all cols rs = filter (\<lambda>r. \<not> list_all (\<lambda>col. src_cell r col = None) cols) rs"

text \<open>
  A record of \<open>temp\<close> after the missing destination columns were added as \<open>""\<close>, the
  defaults set and the columns put in order. \<open>issue\<close> is the label of the file.
\<close>

definition dest_cell :: "src_table \<Rightarrow> (string \<Rightarrow> string) \<Rightarrow> string \<Rightarrow> cell" where
  "dest_cell t r col = (if col \<in> set (columns t) then src_cell r col else Some '''')"

definition new_row :: "cell \<Rightarrow> src_table \<Rightarrow> (string \<Rightarrow> string) \<Rightarrow> (cell, cell, int) row" where
  "new_row issue t r =
     Row (dest_cell t r ''timestamp'') (dest_cell t r ''severity'') (dest_cell t r ''ip'')
         (dest_cell t r ''protocol'') (dest_cell t r ''port'') (Some ''open'')
         (dest_cell t r ''hostname'') (dest_cell t r ''region'') (dest_cell t r ''city'')
         issue 0 (replicate 9 (Some ''''))"

text \<open>
  Lines 95 to 118 of \<open>shadowserver_files_processor.py\<close>; \<^term>\<open>None\<close> is one of the two
  \<open>continue\<close> exits (no matching column, no usable data).
\<close>

definition normalize :: "string \<Rightarrow> src_table \<Rightarrow> (cell, cell, int) row list option" where
  "normalize filename t =
     (if valid_cols t = [] then None
      else let temp = dropna_all (valid_cols t) (body t) in
        if temp = [] then None
        else Some (map (new_row (extract_issue_from_filename filename) t) temp))"

section \<open>Recurrence Resolver\<close>

text \<open>Boolean masks over the rows of a frame, combined with \<open>&\<close> and used to select rows.\<close>

definition eq_mask :: "('r \<Rightarrow> cell) \<Rightarrow> 'r list \<Rightarrow> cell \<Rightarrow> bool list" where
  "eq_mask col df v = map (\<lambda>r. cell_eq (col r) v) df"

definition ne_mask :: "('r \<Rightarrow> cell) \<Rightarrow> 'r list \<Rightarrow> cell \<Rightarrow> bool list" where
  "ne_mask col df v = map (\<lambda>r. cell_ne (col r) v) df"

definition and_mask :: "bool list \<Rightarrow> bool list \<Rightarrow> bool list" where
  "and_mask a b = map2 (\<and>) a b"

definition select_rows :: "'r list \<Rightarrow> bool list \<Rightarrow> 'r list" where
  "select_rows df bs = map fst (filter snd (zip df bs))"

definition matches :: "(cell, cell, int) row list \<Rightarrow> (cell, cell, int) row \<Rightarrow> (cell, cell, int) row list" where
  "matches df_dest new =
     select_rows df_dest
       (and_mask (eq_mask Severity df_dest (Severity new))
       (and_mask (eq_mask IP df_dest (IP new))
       (and_mask (eq_mask Protocol df_dest (Protocol new))
       (and_mask (eq_mask Port df_dest (Port new))
       (and_mask (eq_mask State df_dest (State new))
       (and_mask (eq_mask Issue df_dest (Issue new))
                 (ne_mask Timestamp df_dest (Timestamp new))))))))"

text \<open>\<open>.max()\<close> of a non-empty integer column.\<close>

definition column_max :: "int list \<Rightarrow> int" where
  "column_max ns = fold max (tl ns) (hd ns)"

definition resolve_row :: "(cell, cell, int) row list \<Rightarrow> (cell, cell, int) row \<Rightarrow> (cell, cell, int) row" where
  "resolve_row df_dest new =
     (let m = matches df_dest new in
      if m \<noteq> [] then set_recurring (column_max (map Recurring_Issue m) + 1) new else new)"

text \<open>The loop \<open>for i, new_row in temp.iterrows()\<close>: each row of \<open>temp\<close> against \<open>df_dest\<close>.\<close>

definition resolve :: "(cell, cell, int) row list \<Rightarrow> (cell, cell, int) row list \<Rightarrow> (cell, cell, int) row list" where
  "resolve df_dest temp = map (resolve_row df_dest) temp"

section \<open>Merge Store and Ingestion Ledger\<close>

text \<open>
  The library routines the scripts call and whose code is not theirs are parameters:
  \<open>tn\<close> is the text parser of \<open>pd.to_numeric\<close>, \<open>td\<close> the text parser of
  \<open>pd.to_datetime(errors='coerce')\<close> (a time is the integer of \<open>datetime64\<close>, \<^term>\<open>None\<close> is
  \<open>NaT\<close>), \<open>fmt\<close> the text \<open>to_csv\<close> writes for a time, and \<open>argsort\<close> the sorting routine
  of the default \<open>kind\<close> of \<open>sort_values\<close>, which returns the positions of the keys in
  ascending order of the keys.
\<close>

record lib =
  tn :: "string \<Rightarrow> numeric"
  td :: "string \<Rightarrow> int option"
  fmt :: "int \<Rightarrow> string"
  argsort :: "int list \<Rightarrow> nat list"

type_synonym time_row = "(cell, int option, counter) row"

definition to_datetime :: "(string \<Rightarrow> int option) \<Rightarrow> cell \<Rightarrow> int option" where
  "to_datetime p c = (case c of None \<Rightarrow> None | Some s \<Rightarrow> p s)"

text \<open>
  \<open>sort_values(by='Timestamp', ascending=False, na_position='last')\<close>, as the library's
  \<open>nargsort\<close> computes the positions: the present keys are reversed, sorted ascending by
  \<open>argsort\<close> and reversed again; the positions of the missing keys follow in their order.
\<close>

definition nargsort_desc :: "(int list \<Rightarrow> nat list) \<Rightarrow> int option list \<Rightarrow> nat list" where
  "nargsort_desc asort items =
     (let idx = [0..<length items];
          non_nan_idx = rev (filter (\<lambda>i. items ! i \<noteq> None) idx);
          non_nans = map (\<lambda>i. the (items ! i)) non_nan_idx;
          nan_idx = filter (\<lambda>i. items ! i = None) idx;
          indexer = rev (map (\<lambda>j. non_nan_idx ! j) (asort non_nans))
      in indexer @ nan_idx)"

definition sort_values_desc ::
  "(int list \<Rightarrow> nat list) \<Rightarrow> ('c, int option, 'n) row list \<Rightarrow> ('c, int option, 'n) row list" where
  "sort_values_desc asort df = map (\<lambda>i. df ! i) (nargsort_desc asort (map Timestamp df))"

text \<open>\<open>str\<close> of an integer, as \<open>to_csv\<close> writes the converted column.\<close>

definition digit_char :: "nat \<Rightarrow> char" where
  "digit_char d = char_of (48 + d)"

fun show_nat :: "nat \<Rightarrow> string" where
  "show_nat n = (if n < 10 then [digit_char n] else show_nat (n div 10) @ [digit_char (n mod 10)])"

declare show_nat.simps [simp del]

definition show_int :: "int \<Rightarrow> string" where
  "show_int i = (if i < 0 then CHR ''-'' # show_nat (nat (- i)) else show_nat (nat i))"

definition counter_text :: "counter \<Rightarrow> string" where
  "counter_text c = (case c of Count n \<Rightarrow> show_int n | Text x \<Rightarrow> to_csv_cell x)"

definition time_text :: "(int \<Rightarrow> string) \<Rightarrow> int option \<Rightarrow> string" where
  "time_text f t = (case t of None \<Rightarrow> '''' | Some x \<Rightarrow> f x)"

definition to_csv :: "(int \<Rightarrow> string) \<Rightarrow> time_row list \<Rightarrow> csv_row list" where
  "to_csv f df = map (map_row to_csv_cell (time_text f) counter_text) df"

text \<open>A directory entry: the name and, when the file can be read, its table.\<close>

type_synonym src_file = "string \<times> src_table option"

definition endswith :: "string \<Rightarrow> string \<Rightarrow> bool" where
  "endswith s suffix \<longleftrightarrow> length suffix \<le> length s \<and> drop (length s - length suffix) s = suffix"

text \<open>
  One turn of the loop over \<open>os.listdir(source_dir)\<close>. The state is \<open>df_dest\<close> and
  \<open>newly_processed\<close>; a \<open>continue\<close> leaves it as it is. The conversion of the counter
  column is outside every \<open>try\<close>, so its exception ends the script.
\<close>

type_synonym loop_state = "(cell, cell, counter) row list \<times> string list"

definition process_file ::
  "(string \<Rightarrow> numeric) \<Rightarrow> string list \<Rightarrow> src_file \<Rightarrow> loop_state \<Rightarrow> error + loop_state" where
  "process_file p processed_files file st =
     (case file of (filename, content) \<Rightarrow>
      case st of (df_dest, newly_processed) \<Rightarrow>
        if \<not> (endswith filename ''.csv'' \<or> endswith filename ''.xlsx'') then Inr st
        else if filename \<in> set processed_files then Inr st
        else case content of
          None \<Rightarrow> Inr st
        | Some t \<Rightarrow>
           (case normalize filename t of
              None \<Rightarrow> Inr st
            | Some temp \<Rightarrow>
               (case coerce_recurring p df_dest of
                  Inl e \<Rightarrow> Inl e
                | Inr dest \<Rightarrow>
                    Inr (map (map_row id id Count) (resolve dest temp @ dest),
                         newly_processed @ [filename]))))"

fun process_files ::
  "(string \<Rightarrow> numeric) \<Rightarrow> string list \<Rightarrow> src_file list \<Rightarrow> loop_state \<Rightarrow> error + loop_state" where
  "process_files p processed_files [] st = Inr st"
| "process_files p processed_files (file # files) st =
     (case process_file p processed_files file st of
        Inl e \<Rightarrow> Inl e
      | Inr st' \<Rightarrow> process_files p processed_files files st')"

text \<open>
  The two files the script keeps: the destination CSV (with the full header) and the
  processed-files log (its lines); \<^term>\<open>None\<close> when the file does not exist. The
  environment of a run is the directory listing and whether the two final writes succeed.
\<close>

record fs =
  destination :: "csv_row list option"
  processed_log :: "string list option"

record env =
  listing :: "src_file list"
  save_ok :: bool
  log_ok :: bool

definition load_processed :: "fs \<Rightarrow> string list" where
  "load_processed s = (case processed_log s of None \<Rightarrow> [] | Some ls \<Rightarrow> ls)"

definition load_destination :: "fs \<Rightarrow> (cell, cell, counter) row list" where
  "load_destination s =
     (case destination s of
        None \<Rightarrow> []
      | Some f \<Rightarrow> map (map_row id id Text) (strip_all (read_csv f)))"

text \<open>The run up to the final sort: the frame to save and the files to log.\<close>

definition ingest_frame :: "lib \<Rightarrow> env \<Rightarrow> fs \<Rightarrow> error + (time_row list \<times> string list)" where
  "ingest_frame L e s =
     (case process_files (tn L) (load_processed s) (listing e) (load_destination s, []) of
        Inl err \<Rightarrow> Inl err
      | Inr (df_dest, newly_processed) \<Rightarrow>
          Inr (sort_values_desc (argsort L)
                 (map (map_row id (to_datetime (td L)) id) df_dest),
               newly_processed))"

text \<open>
  The save of the destination and the update of the log (lines 150 to 165): each write
  is in its own \<open>try\<close>, and a failure is only printed.
\<close>

definition ingest :: "lib \<Rightarrow> env \<Rightarrow> fs \<Rightarrow> error + fs" where
  "ingest L e s =
     (case ingest_frame L e s of
        Inl err \<Rightarrow> Inl err
      | Inr (df_dest, newly_processed) \<Rightarrow>
          let s1 = (if save_ok e then s\<lparr>destination := Some (to_csv (fmt L) df_dest)\<rparr> else s);
              s2 = (if newly_processed \<noteq> [] \<and> log_ok e
                    then s1\<lparr>processed_log := Some (load_processed s1 @ newly_processed)\<rparr>
                    else s1)
          in Inr s2)"

section \<open>Dedup Compactor\<close>

type_synonym num_row = "(cell, int option, int) row"

text \<open>\<open>key_columns = ['Severity', 'IP', 'Protocol', 'Port', 'State']\<close>\<close>

definition key_columns :: "('c, 't, 'n) row \<Rightarrow> 'c list" where
  "key_columns r = [Severity r, IP r, Protocol r, Port r, State r]"

text \<open>\<open>df.dropna(subset=key_columns + ['Timestamp'])\<close> keeps the rows that pass this test.\<close>

definition keyable :: "(cell, int option, 'n) row \<Rightarrow> bool" where
  "keyable r \<longleftrightarrow> list_all (\<lambda>c. c \<noteq> None) (key_columns r) \<and> Timestamp r \<noteq> None"

text \<open>
  Section 2 of \<open>deduplicate_and_update\<close>: the time stamps parsed, the counters converted
  (outside every \<open>try\<close>), the rows without key or time dropped.
\<close>

definition prepare :: "lib \<Rightarrow> csv_row list \<Rightarrow> error + num_row list" where
  "prepare L f =
     (case coerce_recurring (tn L) (map (map_row id (to_datetime (td L)) Text) (read_csv f)) of
        Inl e \<Rightarrow> Inl e
      | Inr df \<Rightarrow> Inr (filter keyable df))"

text \<open>
  \<open>df.sort_values(by=key_columns + ['Timestamp'], ascending=[True]*5 + [False])\<close>: the
  sort on several columns is the library's stable one, by key ascending and time descending.
\<close>

definition sort_by_key_time :: "num_row list \<Rightarrow> num_row list" where
  "sort_by_key_time df = sort_key (\<lambda>r. (key_columns r, - the (Timestamp r))) df"

text \<open>\<open>groupby(key_columns)\<close>: one group for each key, in ascending order of the keys.\<close>

definition groupby :: "num_row list \<Rightarrow> num_row list list" where
  "groupby df =
     map (\<lambda>k. filter (\<lambda>r. key_columns r = k) df) (sort (remdups (map key_columns df)))"

text \<open>The body of the loop over the groups.\<close>

definition keep_latest :: "num_row list \<Rightarrow> num_row" where
  "keep_latest grp =
     (let latest_record = hd grp;
          num_duplicates = int (length grp) - 1
      in if num_duplicates > 0
         then set_recurring (Recurring_Issue latest_record + num_duplicates) latest_record
         else latest_record)"

definition final_records :: "num_row list \<Rightarrow> num_row list" where
  "final_records df = map keep_latest (groupby (sort_by_key_time df))"

text \<open>
  How a call ends: the source could not be read, there was no valid record (nothing is
  written), the write failed, or the output was written and the count of removed records
  printed.
\<close>

datatype outcome = LoadFailed | NoValidRecords | SaveFailed | Saved "csv_row list" int

text \<open>The frame after \<open>dropna\<close> and the frame to save.\<close>

definition compact :: "lib \<Rightarrow> csv_row list \<Rightarrow> error + (num_row list \<times> num_row list)" where
  "compact L f =
     (case prepare L f of
        Inl e \<Rightarrow> Inl e
      | Inr df \<Rightarrow> Inr (df, sort_values_desc (argsort L) (final_records df)))"

definition deduplicate_and_update :: "lib \<Rightarrow> bool \<Rightarrow> csv_row list option \<Rightarrow> error + outcome" where
  "deduplicate_and_update L can_save source =
     (case source of
        None \<Rightarrow> Inr LoadFailed
      | Some f \<Rightarrow>
         (case compact L f of
            Inl e \<Rightarrow> Inl e
          | Inr (df, df_final) \<Rightarrow>
              if df_final = [] then Inr NoValidRecords
              else if can_save
                then Inr (Saved (to_csv (fmt L) (map (map_row id id Count) df_final))
                                (int (length df) - int (length df_final)))
                else Inr SaveFailed))"

section \<open>An instance of the library routines\<close>

text \<open>
  For the examples the library routines are instantiated on a fragment of their inputs:
  the number parser reads the decimal integer literals and the spellings of infinity and
  takes every other text as not a number; times are written as integers; the sorting
  routine is a stable one, and a second one that leaves equal keys in reverse order.
\<close>

definition digit_val :: "char \<Rightarrow> nat option" where
  "digit_val c =
     (let n = (of_char c :: nat) in if 48 \<le> n \<and> n \<le> 57 then Some (n - 48) else None)"

fun parse_digits :: "nat \<Rightarrow> string \<Rightarrow> nat option" where
  "parse_digits acc [] = Some acc"
| "parse_digits acc (c # cs) =
     (case digit_val c of None \<Rightarrow> None | Some d \<Rightarrow> parse_digits (10 * acc + d) cs)"

definition parse_nat :: "string \<Rightarrow> nat option" where
  "parse_nat s = (if s = [] then None else parse_digits 0 s)"

definition int_literal :: "string \<Rightarrow> int option" where
  "int_literal s =
     (case s of
        [] \<Rightarrow> None
      | c # cs \<Rightarrow>
          if c = CHR ''-'' then map_option (\<lambda>n. - int n) (parse_nat cs)
          else if c = CHR ''+'' then map_option int (parse_nat cs)
          else map_option int (parse_nat s))"

definition to_numeric_lit :: "string \<Rightarrow> numeric" where
  "to_numeric_lit s =
     (case int_literal s of
        Some n \<Rightarrow> Finite n
      | None \<Rightarrow>
          if lower s \<in> set [''inf'', ''+inf'', ''-inf'', ''infinity'', ''+infinity'', ''-infinity'']
          then Infinite else NaN)"

definition stable_argsort :: "int list \<Rightarrow> nat list" where
  "stable_argsort ks = sort_key (\<lambda>i. ks ! i) [0..<length ks]"

definition reversing_argsort :: "int list \<Rightarrow> nat list" where
  "reversing_argsort ks = rev (sort_key (\<lambda>i. - (ks ! i)) [0..<length ks])"

definition lit_lib :: lib where
  "lit_lib = \<lparr>tn = to_numeric_lit, td = int_literal, fmt = show_int, argsort = stable_argsort\<rparr>"

text \<open>What is asked of a sorting routine: a permutation of the positions, keys ascending.\<close>

definition argsort_ok :: "(int list \<Rightarrow> nat list) \<Rightarrow> bool" where
  "argsort_ok asort \<longleftrightarrow>
     (\<forall>ks. mset (asort ks) = mset [0..<length ks] \<and> sorted (map (\<lambda>i. ks ! i) (asort ks)))"

section \<open>The match rule as the specification words it\<close>


section \<open>Auxiliary notions for the statements\<close>

text \<open>The integer the conversion gives for one entry of the column when it does not raise.\<close>

definition coerced :: "(string \<Rightarrow> numeric) \<Rightarrow> counter \<Rightarrow> int" where
  "coerced p c = (case fillna0 (to_numeric p c) of Finite n \<Rightarrow> n | _ \<Rightarrow> 0)"

text \<open>The frame of the compaction before the counters are converted and the rows dropped.\<close>

definition timed :: "lib \<Rightarrow> csv_row list \<Rightarrow> time_row list" where
  "timed L f = map (map_row id (to_datetime (td L)) Text) (read_csv f)"

text \<open>Later time first, missing time last.\<close>

definition time_ge :: "int option \<Rightarrow> int option \<Rightarrow> bool" where
  "time_ge a b = (case b of None \<Rightarrow> True | Some y \<Rightarrow> (case a of None \<Rightarrow> False | Some x \<Rightarrow> y \<le> x))"

section \<open>Example data\<close>

definition fields :: "(string \<times> string) list \<Rightarrow> string \<Rightarrow> string" where
  "fields kvs col = (case map_of kvs col of Some v \<Rightarrow> v | None \<Rightarrow> '''')"

definition ex_name :: string where
  "ex_name = ''2024-01-02-scan_ssl_weak-a.csv''"

definition ex_scan :: src_table where
  "ex_scan = \<lparr>columns = [''timestamp'', ''severity'', ''ip'', ''protocol'', ''port''],
     body = [fields [(''timestamp'', ''200''), (''severity'', ''High''), (''ip'', ''10.0.0.1''),
                     (''protocol'', ''tcp''), (''port'', ''443'')]]\<rparr>"

definition ex_scan_no_ip :: src_table where
  "ex_scan_no_ip = \<lparr>columns = [''timestamp'', ''severity'', ''ip'', ''protocol'', ''port''],
     body = [fields [(''timestamp'', ''200''), (''severity'', ''High''), (''ip'', ''''),
                     (''protocol'', ''tcp''), (''port'', ''443'')]]\<rparr>"

definition ex_row :: "'t \<Rightarrow> 'c \<Rightarrow> 'c \<Rightarrow> 'c \<Rightarrow> 'n \<Rightarrow> 'c \<Rightarrow> ('c, 't, 'n) row" where
  "ex_row ts sev ip issue ri blank =
     Row ts sev ip blank blank blank blank blank blank issue ri (replicate 9 blank)"


definition ex_csv :: "string \<Rightarrow> string \<Rightarrow> string \<Rightarrow> csv_row" where
  "ex_csv ts sev ri =
     Row ts sev ''10.0.0.1'' ''tcp'' ''443'' ''open'' '''' '''' '''' ''ssl weak'' ri (replicate 9 '''')"



definition ex_env :: "src_file list \<Rightarrow> bool \<Rightarrow> env" where
  "ex_env files can_save = \<lparr>listing = files, save_ok = can_save, log_ok = True\<rparr>"

definition ex_fs :: "csv_row list \<Rightarrow> fs" where
  "ex_fs f = \<lparr>destination = Some f, processed_log = None\<rparr>"

definition ex_fs0 :: fs where
  "ex_fs0 = \<lparr>destination = None, processed_log = None\<rparr>"

definition ex_temp_no_ip :: "(cell, cell, int) row list" where
  "ex_temp_no_ip =
     [Row (Some ''200'') (Some ''High'') None (Some ''tcp'') (Some ''443'')
          (Some ''open'') (Some '''') (Some '''') (Some '''') (Some ''ssl weak'') 0
          (replicate 9 (Some ''''))]"

definition ex_time_row :: time_row where
  "ex_time_row =
     Row (Some 200) (Some ''High'') (Some ''10.0.0.1'') (Some ''tcp'') (Some ''443'')
         (Some ''open'') (Some '''') (Some '''') (Some '''') (Some ''ssl weak'') (Count 0)
         (replicate 9 (Some ''''))"

definition ex_store_bad_time :: "csv_row list" where
  "ex_store_bad_time = [ex_csv ''100'' ''High'' ''0'', ex_csv ''zz'' ''High'' ''0'']"

section \<open>Properties\<close>

subsection \<open>Recurrence Resolver\<close>









subsection \<open>Issue Tagger\<close>

lemma copy_label_without_marker:
  "re_search_scan filename = None \<Longrightarrow> extract_issue_from_filename_copy filename = ''unknown issue''"
  by (simp add: extract_issue_from_filename_copy_def)

lemma label_without_marker:
  "re_search_scan filename = None \<Longrightarrow> extract_issue_from_filename filename = None"
  by (simp add: extract_issue_from_filename_def)

lemma normalize_issue:
  "normalize filename t = Some temp \<Longrightarrow> r \<in> set temp \<Longrightarrow>
   Issue r = extract_issue_from_filename filename"
  by (auto simp: normalize_def Let_def new_row_def split: if_splits)

text \<open>
  C5. The file name \<open>report.csv\<close> holds no \<open>scan_\<close> marker. The tagger of
  \<open>shadowserver_files_processor.py\<close> returns the absent value for it, and every row of the
  file is stamped with that absent value; the copy of the function in \<open>script_V3.0.py\<close> returns
  the label \<open>unknown issue\<close>.
\<close>

theorem tagger_without_marker:
  "re_search_scan ''report.csv'' = None \<and>
   extract_issue_from_filename ''report.csv'' = None \<and>
   map Issue (the (normalize ''report.csv'' ex_scan)) = [None] \<and>
   extract_issue_from_filename_copy ''report.csv'' = ''unknown issue''"
  by code_simp

subsection \<open>Coercion of the counter\<close>

lemma fillna0_to_numeric_missing:
  "to_numeric p c = NaN \<Longrightarrow> fillna0 (to_numeric p c) = Finite 0"
  by (simp add: fillna0_def)

lemma astype_int_finite:
  "list_all is_finite xs \<Longrightarrow> \<exists>ns. astype_int xs = Inr ns \<and> length ns = length xs"
  by (simp add: astype_int_def)

lemma coerce_column_nth:
  assumes "coerce_column p col = Inr ns" and "i < length col" and "to_numeric p (col ! i) = NaN"
  shows "ns ! i = 0"
  using assms
  by (auto simp: coerce_column_def astype_int_def fillna0_def split: if_splits)

text \<open>
  C10. A stored Recurring Issue \<open>inf\<close> is read by the number parser as an infinity,
  which \<open>fillna(0)\<close> leaves and \<open>astype(int)\<close> rejects: the conversion raises, in the
  compaction and in the ingestion of a new file, while a text that is not a number becomes 0.
\<close>

theorem coercion_raises_on_infinity:
  "to_numeric_lit ''inf'' = Infinite \<and>
   coerce_column to_numeric_lit [Text (Some ''inf'')] = Inl IntCastingNaNError \<and>
   coerce_column to_numeric_lit [Text (Some ''abc''), Text None, Text (Some ''4'')] = Inr [0, 0, 4] \<and>
   deduplicate_and_update lit_lib True (Some [ex_csv ''100'' ''High'' ''inf'']) = Inl IntCastingNaNError \<and>
   ingest lit_lib (ex_env [(ex_name, Some ex_scan)] True) (ex_fs [ex_csv ''100'' ''High'' ''inf''])
     = Inl IntCastingNaNError"
  by code_simp

subsection \<open>Admission to the store\<close>

lemma resolve_row_IP: "IP (resolve_row d n) = IP n"
  by (cases n) (simp add: resolve_row_def Let_def set_recurring_def)

lemma dropna_all_filter:
  "dropna_all cols rs = filter (\<lambda>r. \<exists>col \<in> set cols. src_cell r col \<noteq> None) rs"
  by (simp add: dropna_all_def list_all_iff)

text \<open>
  C3, as the code has it. A file that is read and passes normalization puts into the store
  one row for every source record in which at least one of the selected columns is present;
  a record is dropped only when all of them are missing. The IP of an admitted row is the
  cell of the source, missing when the source has none.
\<close>

theorem admission_rule:
  assumes "endswith filename ''.csv'' \<or> endswith filename ''.xlsx''"
      and "filename \<notin> set processed_files"
      and "normalize filename t = Some temp"
      and "coerce_recurring p df_dest = Inr dest"
  shows "process_file p processed_files (filename, Some t) (df_dest, newly)
           = Inr (map (map_row id id Count) (resolve dest temp @ dest), newly @ [filename])
         \<and> temp = map (new_row (extract_issue_from_filename filename) t)
                    (filter (\<lambda>r. \<exists>col \<in> set (valid_cols t). src_cell r col \<noteq> None) (body t))
         \<and> map IP (resolve dest temp)
             = map (\<lambda>r. dest_cell t r ''ip'')
                 (filter (\<lambda>r. \<exists>col \<in> set (valid_cols t). src_cell r col \<noteq> None) (body t))"
proof -
  have 1: "process_file p processed_files (filename, Some t) (df_dest, newly)
           = Inr (map (map_row id id Count) (resolve dest temp @ dest), newly @ [filename])"
    using assms by (simp add: process_file_def)
  have 2: "temp = map (new_row (extract_issue_from_filename filename) t)
                    (filter (\<lambda>r. \<exists>col \<in> set (valid_cols t). src_cell r col \<noteq> None) (body t))"
    using assms(3) by (simp add: normalize_def Let_def dropna_all_filter split: if_splits)
  have "map IP (resolve dest temp) = map IP temp"
    by (simp add: resolve_def resolve_row_IP)
  also have "\<dots> = map (\<lambda>r. dest_cell t r ''ip'')
                 (filter (\<lambda>r. \<exists>col \<in> set (valid_cols t). src_cell r col \<noteq> None) (body t))"
    by (subst 2) (simp add: new_row_def o_def)
  finally show ?thesis using 1 2 by blast
qed

theorem admission_rule_witness:
  "(endswith ex_name ''.csv'' \<or> endswith ex_name ''.xlsx'') \<and> ex_name \<notin> set [] \<and>
   normalize ex_name ex_scan_no_ip = Some ex_temp_no_ip \<and>
   coerce_recurring to_numeric_lit ([] :: (cell, cell, counter) row list) = Inr [] \<and>
   process_file to_numeric_lit [] (ex_name, Some ex_scan_no_ip) ([], [])
     = Inr (map (map_row id id Count) (resolve [] ex_temp_no_ip @ []), [] @ [ex_name]) \<and>
   map IP (resolve [] ex_temp_no_ip) = [None]"
proof -
  have h1: "endswith ex_name ''.csv'' \<or> endswith ex_name ''.xlsx''"
    by code_simp
  have h2: "ex_name \<notin> set []"
    by simp
  have h3: "normalize ex_name ex_scan_no_ip = Some ex_temp_no_ip"
    by code_simp
  have h4: "coerce_recurring to_numeric_lit ([] :: (cell, cell, counter) row list) = Inr []"
    by code_simp
  have h5: "map IP (resolve [] ex_temp_no_ip) = [None]"
    by code_simp
  from admission_rule [OF h1 h2 h3 h4, of "[]"] h1 h2 h3 h4 h5 show ?thesis
    by blast
qed

text \<open>
  The claim as it is worded fails: a source record without \<open>ip\<close> is not dropped by the
  normalization and is written to the destination with an empty IP.
\<close>

theorem missing_ip_admitted:
  "src_cell (hd (body ex_scan_no_ip)) ''ip'' = None \<and>
   ingest lit_lib (ex_env [(ex_name, Some ex_scan_no_ip)] True) ex_fs0
     = Inr \<lparr>destination = Some [Row ''200'' ''High'' '''' ''tcp'' ''443'' ''open'' '''' '''' ''''
                                    ''ssl weak'' ''0'' (replicate 9 '''')],
            processed_log = Some [ex_name]\<rparr>"
  by code_simp

subsection \<open>Final save and ledger update\<close>

text \<open>
  C4, as the code has it. When the run reaches its end with at least one file folded in and
  the log can be written, the names of the files of this run are appended to the ledger
  whether the save of the destination succeeded or not; a failed save leaves the
  destination as it was.
\<close>

theorem ledger_update_regardless_of_save:
  assumes "ingest_frame L e s = Inr (df, newly)" and "newly \<noteq> []" and "log_ok e"
  shows "\<exists>s'. ingest L e s = Inr s'
           \<and> processed_log s' = Some (load_processed s @ newly)
           \<and> destination s' = (if save_ok e then Some (to_csv (fmt L) df) else destination s)"
  using assms by (simp add: ingest_def Let_def load_processed_def)

theorem ledger_update_regardless_of_save_witness:
  "ingest_frame lit_lib (ex_env [(ex_name, Some ex_scan)] False) ex_fs0
     = Inr ([ex_time_row], [ex_name]) \<and>
   [ex_name] \<noteq> [] \<and> log_ok (ex_env [(ex_name, Some ex_scan)] False) \<and>
   (\<exists>s'. ingest lit_lib (ex_env [(ex_name, Some ex_scan)] False) ex_fs0 = Inr s'
       \<and> processed_log s' = Some (load_processed ex_fs0 @ [ex_name])
       \<and> destination s' = destination ex_fs0)"
proof -
  have h1: "ingest_frame lit_lib (ex_env [(ex_name, Some ex_scan)] False) ex_fs0
     = Inr ([ex_time_row], [ex_name])"
    by code_simp
  have h2: "[ex_name] \<noteq> []"
    by simp
  have h3: "log_ok (ex_env [(ex_name, Some ex_scan)] False)"
    by (simp add: ex_env_def)
  have h4: "\<not> save_ok (ex_env [(ex_name, Some ex_scan)] False)"
    by (simp add: ex_env_def)
  from ledger_update_regardless_of_save [OF h1 h2 h3] h1 h2 h3 h4 show ?thesis
    by auto
qed

text \<open>
  The claim as it is worded fails: the save of the destination fails, and the file of the
  run is in the ledger all the same.
\<close>

theorem ledger_updated_after_failed_save:
  "\<not> save_ok (ex_env [(ex_name, Some ex_scan)] False) \<and>
   ingest lit_lib (ex_env [(ex_name, Some ex_scan)] False) ex_fs0
     = Inr \<lparr>destination = None, processed_log = Some [ex_name]\<rparr>"
  by code_simp

subsection \<open>Compaction: the frame after the conversions\<close>

lemma map2_map_same: "map2 f (map g xs) xs = map (\<lambda>x. f (g x) x) xs"
  by (induction xs) auto

lemma coerce_recurring_Inr:
  assumes "coerce_recurring p df = Inr df'"
  shows "df' = map (\<lambda>r. set_recurring (coerced p (Recurring_Issue r)) r) df"
proof -
  let ?xs = "map (\<lambda>c. fillna0 (to_numeric p c)) (map Recurring_Issue df)"
  from assms have fin: "list_all is_finite ?xs"
    by (auto simp: coerce_recurring_def coerce_column_def astype_int_def split: sum.splits if_splits)
  then have "coerce_column p (map Recurring_Issue df) = Inr (map (coerced p) (map Recurring_Issue df))"
    by (simp add: coerce_column_def astype_int_def coerced_def o_def)
  with assms show ?thesis
    by (simp add: coerce_recurring_def
        map2_map_same[of set_recurring "\<lambda>r. coerced p (Recurring_Issue r)" df, simplified] o_def)
qed

lemma keyable_set_recurring [simp]: "keyable (set_recurring n r) = keyable r"
  by (cases r) (simp add: keyable_def set_recurring_def key_columns_def)

lemma prepare_Inr:
  assumes "prepare L f = Inr df"
  shows "df = map (\<lambda>r. set_recurring (coerced (tn L) (Recurring_Issue r)) r)
                (filter keyable (timed L f))"
proof -
  from assms obtain df2 where c: "coerce_recurring (tn L) (timed L f) = Inr df2"
    and d: "df = filter keyable df2"
    by (auto simp: prepare_def timed_def split: sum.splits)
  show ?thesis
    unfolding d coerce_recurring_Inr[OF c] by (simp add: filter_map o_def)
qed

subsection \<open>Compaction: the count reported\<close>

text \<open>
  C9, as the code has it. The count printed after a successful write is the number of
  records left by the filter on key and time minus the number of records written: the
  records the filter excluded are not in it.
\<close>

theorem reported_count:
  assumes "deduplicate_and_update L can_save (Some f) = Inr (Saved out n)"
  shows "n = int (length (filter keyable (timed L f))) - int (length out)"
proof -
  from assms obtain df df_final where c: "compact L f = Inr (df, df_final)"
    and out: "out = to_csv (fmt L) (map (map_row id id Count) df_final)"
    and n: "n = int (length df) - int (length df_final)"
    by (auto simp: deduplicate_and_update_def split: sum.splits if_splits)
  from c have "prepare L f = Inr df"
    by (auto simp: compact_def split: sum.splits)
  from prepare_Inr[OF this] have "length df = length (filter keyable (timed L f))"
    by simp
  with out n show ?thesis by (simp add: to_csv_def)
qed

theorem reported_count_witness:
  "deduplicate_and_update lit_lib True (Some ex_store_bad_time)
     = Inr (Saved [ex_csv ''100'' ''High'' ''0''] 0) \<and>
   (0::int) = int (length (filter keyable (timed lit_lib ex_store_bad_time)))
               - int (length [ex_csv ''100'' ''High'' ''0''])"
proof -
  have h: "deduplicate_and_update lit_lib True (Some ex_store_bad_time)
     = Inr (Saved [ex_csv ''100'' ''High'' ''0''] 0)"
    by code_simp
  from reported_count [OF h] h show ?thesis
    by blast
qed

text \<open>
  The claim as it is worded fails: of two stored records one has a time stamp that does not
  parse; one record is written, one is absent from the output, and the count reported is 0.
\<close>

theorem reported_count_misses_filtered:
  "deduplicate_and_update lit_lib True (Some ex_store_bad_time)
     = Inr (Saved [ex_csv ''100'' ''High'' ''0''] 0) \<and>
   int (length ex_store_bad_time) - int (length [ex_csv ''100'' ''High'' ''0'']) = 1"
  by code_simp

subsection \<open>The final sort\<close>

lemma sorted_wrt_time_ge_append:
  assumes "sorted ys"
  shows "sorted_wrt time_ge (map Some (rev ys) @ replicate m None)"
proof -
  have "sorted_wrt (\<lambda>x y. y \<le> x) (rev ys)"
    using assms by (simp add: sorted_wrt_rev)
  then have "sorted_wrt time_ge (map Some (rev ys))"
    by (simp add: sorted_wrt_map time_ge_def)
  moreover have "sorted_wrt time_ge (replicate m None)"
    by (induction m) (auto simp: time_ge_def)
  ultimately show ?thesis
    by (auto simp: sorted_wrt_append time_ge_def)
qed

lemma mset_nth_perm:
  assumes "mset js = mset [0..<length xs]"
  shows "mset (map (\<lambda>j. xs ! j) js) = mset xs"
proof -
  have "mset (map (\<lambda>j. xs ! j) js) = image_mset (\<lambda>j. xs ! j) (mset js)"
    by simp
  also have "\<dots> = image_mset (\<lambda>j. xs ! j) (mset [0..<length xs])"
    by (simp only: assms)
  also have "\<dots> = mset (map (\<lambda>j. xs ! j) [0..<length xs])"
    by simp
  also have "\<dots> = mset xs"
    by (simp only: map_nth)
  finally show ?thesis .
qed

lemma nargsort_desc_mset:
  assumes "argsort_ok asort"
  shows "mset (nargsort_desc asort items) = mset [0..<length items]"
proof -
  define idx where "idx = [0..<length items]"
  define nn where "nn = rev (filter (\<lambda>i. items ! i \<noteq> None) idx)"
  define ks where "ks = map (\<lambda>i. the (items ! i)) nn"
  define nan where "nan = filter (\<lambda>i. items ! i = None) idx"
  have len: "length ks = length nn"
    by (simp add: ks_def)
  have perm: "mset (asort ks) = mset [0..<length nn]"
    using assms len by (simp add: argsort_ok_def)
  have eq: "nargsort_desc asort items = rev (map (\<lambda>j. nn ! j) (asort ks)) @ nan"
    by (simp add: nargsort_desc_def Let_def idx_def nn_def ks_def nan_def)
  have "mset (nargsort_desc asort items) = mset (map (\<lambda>j. nn ! j) (asort ks)) + mset nan"
    unfolding eq by simp
  also have "mset (map (\<lambda>j. nn ! j) (asort ks)) = mset nn"
    by (rule mset_nth_perm[OF perm])
  also have "mset nn + mset nan = mset idx"
    unfolding nn_def nan_def by (simp add: mset_filter)
  finally show ?thesis by (simp add: idx_def)
qed


lemma sort_values_desc_mset:
  assumes "argsort_ok asort"
  shows "mset (sort_values_desc asort df) = mset df"
proof -
  have "mset (nargsort_desc asort (map Timestamp df)) = mset [0..<length df]"
    using nargsort_desc_mset[OF assms, of "map Timestamp df"] by simp
  then show ?thesis
    unfolding sort_values_desc_def by (rule mset_nth_perm)
qed

lemma sort_values_desc_length:
  "argsort_ok asort \<Longrightarrow> length (sort_values_desc asort df) = length df"
  by (metis sort_values_desc_mset size_mset)

lemma sort_values_desc_sorted:
  assumes "argsort_ok asort"
  shows "sorted_wrt time_ge (map Timestamp (sort_values_desc asort df))"
proof -
  define items where "items = map Timestamp df"
  define idx where "idx = [0..<length items]"
  define nn where "nn = rev (filter (\<lambda>i. items ! i \<noteq> None) idx)"
  define ks where "ks = map (\<lambda>i. the (items ! i)) nn"
  define nan where "nan = filter (\<lambda>i. items ! i = None) idx"
  have len: "length ks = length nn"
    by (simp add: ks_def)
  have perm: "mset (asort ks) = mset [0..<length nn]"
    and srt: "sorted (map (\<lambda>j. ks ! j) (asort ks))"
    using assms len by (simp_all add: argsort_ok_def)
  have eq: "nargsort_desc asort items = rev (map (\<lambda>j. nn ! j) (asort ks)) @ nan"
    by (simp add: nargsort_desc_def Let_def idx_def nn_def ks_def nan_def)
  have in_range: "j < length nn" if "j \<in> set (asort ks)" for j
  proof -
    from that have "j \<in> set_mset (mset (asort ks))" by simp
    then have "j \<in> set [0..<length nn]" unfolding perm by simp
    then show ?thesis by simp
  qed
  have present: "Timestamp (df ! (nn ! j)) = Some (ks ! j)" if "j \<in> set (asort ks)" for j
  proof -
    from that have j: "j < length nn" by (rule in_range)
    then have "nn ! j \<in> set nn" by (rule nth_mem)
    then have "nn ! j < length df" and "items ! (nn ! j) \<noteq> None"
      by (auto simp: nn_def idx_def items_def)
    then have "Timestamp (df ! (nn ! j)) = Some (the (items ! (nn ! j)))"
      by (simp add: items_def)
    moreover have "ks ! j = the (items ! (nn ! j))"
      using j by (simp add: ks_def)
    ultimately show ?thesis by simp
  qed
  have missing: "Timestamp (df ! i) = None" if "i \<in> set nan" for i
    using that by (auto simp: nan_def idx_def items_def)
  have first: "map (\<lambda>i. Timestamp (df ! i)) (map (\<lambda>j. nn ! j) (asort ks))
                 = map Some (map (\<lambda>j. ks ! j) (asort ks))"
    using present by simp
  have "map (\<lambda>i. Timestamp (df ! i)) nan = map (\<lambda>_. None) nan"
    using missing by simp
  then have second: "map (\<lambda>i. Timestamp (df ! i)) nan = replicate (length nan) None"
    by (simp only: map_replicate_const)
  have "map Timestamp (sort_values_desc asort df)
          = map (\<lambda>i. Timestamp (df ! i)) (nargsort_desc asort items)"
    by (simp add: sort_values_desc_def items_def)
  also have "\<dots> = rev (map (\<lambda>i. Timestamp (df ! i)) (map (\<lambda>j. nn ! j) (asort ks)))
                      @ map (\<lambda>i. Timestamp (df ! i)) nan"
    unfolding eq by (simp add: rev_map)
  also have "\<dots> = map Some (rev (map (\<lambda>j. ks ! j) (asort ks))) @ replicate (length nan) None"
    unfolding first second by (simp add: rev_map)
  finally show ?thesis
    using sorted_wrt_time_ge_append[OF srt] by simp
qed

end
